theory Spec2Isabelle
  imports Complex_Main "HOL-Library.AList"
begin

section \<open>Shared data: dictionaries, timestamps, alerts\<close>

text \<open>
  Python dictionaries keep insertion order, so a dictionary is an association list:
  \<open>d[k] = v\<close> is \<open>AList.update k v d\<close> (replace in place, or append), \<open>k in d\<close> is
  \<open>map_of d k \<noteq> None\<close>, \<open>len(d)\<close> is \<open>length d\<close>.  Scores are Python floats; they
  are modelled as real numbers.  A \<open>datetime\<close> is the number of microseconds since
  the epoch (its resolution), so that \<open>timedelta(minutes=5)\<close> is \<open>300000000\<close>.
\<close>

type_synonym datetime = int

type_synonym features = "(string \<times> real) list"

definition get :: "features \<Rightarrow> string \<Rightarrow> real \<Rightarrow> real" where
  \<comment> \<open>\<open>features.get(key, default)\<close>\<close>
  "get d k dflt = (case map_of d k of None \<Rightarrow> dflt | Some v \<Rightarrow> v)"

datatype alert_type =
  PROCESS_DETECTION | AUDIO_ANOMALY | CLIPBOARD_DETECTION | TYPING_ANOMALY | AI_DETECTION

datatype severity = MEDIUM | HIGH | CRITICAL

datatype details =
  Speech_pattern_detected real real
    \<comment> \<open>"Suspicious speech pattern detected (pause: .., fluency: ..)"\<close>
| Speech_pattern
    \<comment> \<open>"Suspicious speech pattern"\<close>
| High_probability real
    \<comment> \<open>"High probability of AI assistance (confidence: ..)"\<close>
| Other_details string

record alert =
  timestamp :: datetime
  atype :: alert_type
  severity :: severity
  details :: details

section \<open>The classifier (ml_classifier.py)\<close>

record classifier =
  is_trained :: bool
  scaler :: "real list \<Rightarrow> real list"
    \<comment> \<open>\<open>scaler.transform\<close> on one row\<close>
  model :: "(real list \<Rightarrow> real) option"
    \<comment> \<open>\<open>None\<close>, or the positive-class probability \<open>predict_proba(..)[0][1]\<close> of a loaded model\<close>

definition extract_feature_vector :: "features \<Rightarrow> real list" where
  "extract_feature_vector f =
     [get f ''process_score'' 0.0, get f ''audio_score'' 0.0, get f ''behavior_score'' 0.0]"

definition rule_based_prediction :: "features \<Rightarrow> real" where
  "rule_based_prediction f =
     (let process_score = get f ''process_score'' 0.0;
          audio_score = get f ''audio_score'' 0.0;
          behavior_score = get f ''behavior_score'' 0.0;
          combined_score =
            process_score * 0.4 + audio_score * 0.35 + behavior_score * 0.25;
          max_score = max (max process_score audio_score) behavior_score;
          combined_score =
            (if max_score > 0.9 then max combined_score 0.85 else combined_score);
          high_scores =
            sum_list [1::nat. s \<leftarrow> [process_score, audio_score, behavior_score], s > 0.6];
          combined_score =
            (if high_scores \<ge> 2 then min 1.0 (combined_score + 0.15) else combined_score)
      in combined_score)"

definition predict :: "classifier \<Rightarrow> features \<Rightarrow> real" where
  "predict clf f =
     (let feature_vector = extract_feature_vector f in
      if is_trained clf \<and> model clf \<noteq> None
      then the (model clf) (scaler clf feature_vector)
      else rule_based_prediction f)"

text \<open>The reference definition of the rule-based variant, following the specification's
  wording: the weighted sum, then boost 1, then boost 2.\<close>

definition at_least_two_exceed :: "real \<Rightarrow> real \<Rightarrow> real \<Rightarrow> real \<Rightarrow> bool" where
  "at_least_two_exceed th p a b \<longleftrightarrow>
     (p > th \<and> a > th) \<or> (p > th \<and> b > th) \<or> (a > th \<and> b > th)"

definition spec_combined :: "real \<Rightarrow> real \<Rightarrow> real \<Rightarrow> real" where
  "spec_combined p a b = 0.4 * p + 0.35 * a + 0.25 * b"

definition spec_boost1 :: "real \<Rightarrow> real \<Rightarrow> real \<Rightarrow> real \<Rightarrow> real" where
  "spec_boost1 p a b c = (if Max {p, a, b} > 0.9 then max c 0.85 else c)"

definition spec_boost2 :: "real \<Rightarrow> real \<Rightarrow> real \<Rightarrow> real \<Rightarrow> real" where
  "spec_boost2 p a b c = (if at_least_two_exceed 0.6 p a b then min 1.0 (c + 0.15) else c)"

definition spec_predict :: "real \<Rightarrow> real \<Rightarrow> real \<Rightarrow> real" where
  "spec_predict p a b = spec_boost2 p a b (spec_boost1 p a b (spec_combined p a b))"

definition feature_input :: "real \<Rightarrow> real \<Rightarrow> real \<Rightarrow> real \<Rightarrow> features" where
  \<comment> \<open>the dictionary the callers build: the three scores and \<open>time.time()\<close>\<close>
  "feature_input p a b t =
     [(''process_score'', p), (''audio_score'', a), (''behavior_score'', b), (''timestamp'', t)]"

definition rule_based :: classifier where
  \<comment> \<open>the classifier when no model file was loaded\<close>
  "rule_based = \<lparr>is_trained = False, scaler = (\<lambda>x. x), model = None\<rparr>"

section \<open>The detector loops (main_detector.py, client/candidate_detector.py)\<close>

text \<open>
  One iteration of each polling loop is a function from the collaborators' answers and
  the detector's state to the new state.  A collaborator call may raise; the loop body
  catches every exception, so a raising call leaves the state as it was.
\<close>

datatype 'a outcome = Raises | Returns 'a

record detector =
  detection_scores :: "real list"
    \<comment> \<open>\<open>deque(maxlen=100)\<close>\<close>
  alerts :: "alert list"



definition mean :: "real list \<Rightarrow> real" where
  \<comment> \<open>\<open>np.mean\<close>\<close>
  "mean xs = sum_list xs / real (length xs)"


subsection \<open>The audio analyzer (src/audio_analyzer.py)\<close>

text \<open>
  What \<open>librosa\<close> computes from the collected audio is the input of the model: the
  RMS energy per frame, the number of samples, the standard deviation of the detected
  pitches and the mean spectral centroid.  \<open>analyze_realtime_audio\<close> catches every
  exception of the analysis and returns \<open>None\<close> then, as it does when no audio was
  collected.  The suspicion score it also updates is not part of the returned
  dictionary.
\<close>

record captured =
  energy :: "real list"
  audio_len :: nat
  pitch_std :: real
  spectral_centroid_mean :: real

fun detect_pauses_loop :: "(nat \<times> bool) list \<Rightarrow> (nat \<times> nat) list \<Rightarrow> bool \<Rightarrow> nat
    \<Rightarrow> (nat \<times> nat) list" where
  "detect_pauses_loop [] pauses in_pause pause_start = pauses"
| "detect_pauses_loop ((i, speaking) # rest) pauses in_pause pause_start =
     (if \<not> speaking \<and> \<not> in_pause then detect_pauses_loop rest pauses True i
      else if speaking \<and> in_pause
        then detect_pauses_loop rest (pauses @ [(pause_start, i)]) False pause_start
      else detect_pauses_loop rest pauses in_pause pause_start)"

definition detect_pauses :: "bool list \<Rightarrow> (nat \<times> nat) list" where
  "detect_pauses is_speech = detect_pauses_loop (enumerate 0 is_speech) [] False 0"

definition calculate_fluency :: "bool list \<Rightarrow> real" where
  "calculate_fluency is_speech =
     (if length is_speech = 0 then 0.0
      else
        (let speech_ratio = real (length (filter (\<lambda>x. x) is_speech)) / real (length is_speech);
             transitions = length (filter (\<lambda>(x, y). y \<noteq> x) (zip is_speech (tl is_speech)));
             transition_penalty = min 1.0 (real transitions / 10);
             fluency = speech_ratio * (1 - transition_penalty * 0.3)
         in fluency))"

definition calculate_pause_pattern_score :: "(nat \<times> nat) list \<Rightarrow> real \<Rightarrow> real" where
  "calculate_pause_pattern_score pauses fluency_score =
     (if pauses = [] \<or> fluency_score < 0.5 then 0.0
      else
        (let long_pauses = filter (\<lambda>p. int (snd p) - int (fst p) > 32) pauses in
         if long_pauses \<noteq> [] \<and> fluency_score > 0.8 then 0.8
         else if long_pauses \<noteq> [] then 0.3 else 0.0))"

definition extract_audio_features :: "captured \<Rightarrow> features" where
  "extract_audio_features audio =
     (let pause_threshold = mean (energy audio) * 0.3;
          is_speech = map (\<lambda>e. e > pause_threshold) (energy audio);
          pauses = detect_pauses is_speech;
          pause_count = real (length pauses);
          avg_pause_duration =
            (if pauses \<noteq> [] then mean (map (\<lambda>p. real_of_int (int (snd p) - int (fst p))) pauses)
             else 0);
          fluency_score = calculate_fluency is_speech;
          pitch_variation = (if audio_len audio > 2048 then pitch_std audio else 0);
          pause_pattern_score = calculate_pause_pattern_score pauses fluency_score
      in [(''pause_count'', pause_count),
          (''avg_pause_duration'', avg_pause_duration),
          (''fluency_score'', fluency_score),
          (''pitch_variation'', pitch_variation),
          (''spectral_centroid_mean'', spectral_centroid_mean audio),
          (''pause_pattern_score'', pause_pattern_score)])"

definition analyze_realtime_audio :: "captured option \<Rightarrow> features option" where
  \<comment> \<open>\<open>None\<close>: no audio chunk was collected, or the analysis raised\<close>
  "analyze_realtime_audio collected =
     (case collected of None \<Rightarrow> None | Some audio \<Rightarrow> Some (extract_audio_features audio))"

subsection \<open>The audio loops\<close>

definition truthy :: "features option \<Rightarrow> bool" where
  \<comment> \<open>\<open>if audio_features:\<close> holds for a non-empty dictionary\<close>
  "truthy r = (case r of None \<Rightarrow> False | Some d \<Rightarrow> d \<noteq> [])"

definition monitor_audio :: "datetime \<Rightarrow> features option outcome \<Rightarrow> detector \<Rightarrow> detector" where
  \<comment> \<open>one iteration of \<open>AIInterviewDetector._monitor_audio\<close>\<close>
  "monitor_audio now analysed st =
     (case analysed of
        Raises \<Rightarrow> st
      | Returns audio_features \<Rightarrow>
          if truthy audio_features then
            (let pause_score = get (the audio_features) ''pause_pattern_score'' 0;
                 fluency_score = get (the audio_features) ''fluency_score'' 0
             in if pause_score > 0.7 \<and> fluency_score > 0.8 then
                  st\<lparr>alerts := alerts st @
                    [\<lparr>timestamp = now, atype = AUDIO_ANOMALY, severity = MEDIUM,
                      details = Speech_pattern_detected pause_score fluency_score\<rparr>]\<rparr>
                else st)
          else st)"

definition client_monitor_audio :: "datetime \<Rightarrow> features option outcome option \<Rightarrow> alert list
    \<Rightarrow> alert list" where
  \<comment> \<open>one iteration of \<open>CandidateDetectorClient._monitor_audio\<close> on \<open>self.alerts\<close>;
     \<open>None\<close> when \<open>self.audio_analyzer is None\<close>\<close>
  "client_monitor_audio now analyser als =
     (case analyser of
        None \<Rightarrow> als
      | Some Raises \<Rightarrow> als
      | Some (Returns audio_features) \<Rightarrow>
          if truthy audio_features then
            (let pause_score = get (the audio_features) ''pause_pattern_score'' 0
             in if pause_score > 0.7 then
                  als @ [\<lparr>timestamp = now, atype = AUDIO_ANOMALY, severity = MEDIUM,
                           details = Speech_pattern\<rparr>]
                else als)
          else als)"

section \<open>The detection server (server/detection_server.py)\<close>

datatype session_status = Waiting | Active | Ended | Disconnected

record token_entry =
  tok_token :: string
  tok_candidate_name :: string
  tok_created_at :: datetime
  tok_status :: session_status

record session_view =
  candidate_name :: string
  last_update :: datetime
  detection_score :: real
  view_alerts :: "alert list"
  process_score :: real
  audio_score :: real
  behavior_score :: real
  suspicious_processes :: "string list"
  status :: session_status

text \<open>The JSON body of a report: every field is read with \<open>data.get\<close>, so each may be
  absent.\<close>

record report =
  r_session_id :: "string option"
  r_token :: "string option"
  r_detection_score :: "real option"
  r_alerts :: "alert list option"
  r_process_score :: "real option"
  r_audio_score :: "real option"
  r_behavior_score :: "real option"
  r_suspicious_processes :: "string list option"

record final_report =
  fr_session_id :: string
  fr_candidate_name :: string
  final_score :: real
  total_alerts :: nat
  ended_at :: datetime

datatype event =
  Candidate_update string session_view
| High_risk_alert string string real
| Session_ended final_report

datatype body =
  Error string
| Status string
| Created string string string string
    \<comment> \<open>\<open>session_id\<close>, \<open>token\<close>, \<open>candidate_name\<close>, \<open>download_url\<close>\<close>
| Sessions "(string \<times> session_view) list" nat
    \<comment> \<open>\<open>active_sessions\<close> and \<open>total_sessions\<close>\<close>
| Details session_view
| Final final_report

type_synonym response = "body \<times> nat"

record server =
  session_tokens :: "(string \<times> token_entry) list"
  active_sessions :: "(string \<times> session_view) list"
  emitted :: "event list"
    \<comment> \<open>what \<open>socketio.emit\<close> has sent, oldest first\<close>

definition init :: server where
  "init = \<lparr>session_tokens = [], active_sessions = [], emitted = []\<rparr>"

definition get_or :: "'a option \<Rightarrow> 'a \<Rightarrow> 'a" where
  \<comment> \<open>\<open>data.get(key, default)\<close> on the request body\<close>
  "get_or v dflt = (case v of None \<Rightarrow> dflt | Some x \<Rightarrow> x)"

definition emit :: "event \<Rightarrow> server \<Rightarrow> server" where
  "emit e s = s\<lparr>emitted := emitted s @ [e]\<rparr>"

definition create_session :: "datetime \<Rightarrow> string option \<Rightarrow> string \<Rightarrow> string \<Rightarrow> server
    \<Rightarrow> response \<times> server" where
  \<comment> \<open>\<open>session_id\<close> and \<open>session_token\<close> are the values drawn from \<open>secrets\<close>\<close>
  "create_session now name session_id session_token s =
     (let candidate_name = get_or name ''Unknown'';
          s = s\<lparr>session_tokens := AList.update session_id
                 \<lparr>tok_token = session_token, tok_candidate_name = candidate_name,
                  tok_created_at = now, tok_status = Waiting\<rparr> (session_tokens s)\<rparr>
      in ((Created session_id session_token candidate_name
             (''/download/client/'' @ session_id), 200), s))"

definition receive_detection_report :: "datetime \<Rightarrow> report \<Rightarrow> server \<Rightarrow> response \<times> server" where
  "receive_detection_report now data s =
     (case r_session_id data of
        None \<Rightarrow> ((Error ''Invalid session'', 401), s)
      | Some session_id \<Rightarrow>
     (case map_of (session_tokens s) session_id of
        None \<Rightarrow> ((Error ''Invalid session'', 401), s)
      | Some entry \<Rightarrow>
          if Some (tok_token entry) \<noteq> r_token data then ((Error ''Invalid token'', 401), s)
          else
            (let s = s\<lparr>session_tokens :=
                       AList.update session_id (entry\<lparr>tok_status := Active\<rparr>) (session_tokens s)\<rparr>;
                 view = \<lparr>candidate_name = tok_candidate_name entry,
                         last_update = now,
                         detection_score = get_or (r_detection_score data) 0,
                         view_alerts = get_or (r_alerts data) [],
                         process_score = get_or (r_process_score data) 0,
                         audio_score = get_or (r_audio_score data) 0,
                         behavior_score = get_or (r_behavior_score data) 0,
                         suspicious_processes = get_or (r_suspicious_processes data) [],
                         status = Active\<rparr>;
                 s = s\<lparr>active_sessions := AList.update session_id view (active_sessions s)\<rparr>;
                 s = emit (Candidate_update session_id view) s;
                 s = (if get_or (r_detection_score data) 0 > 0.75
                      then emit (High_risk_alert session_id (tok_candidate_name entry)
                                   (get_or (r_detection_score data) 0)) s
                      else s)
             in ((Status ''success'', 200), s))))"

definition five_minutes :: int where
  \<comment> \<open>\<open>timedelta(minutes=5)\<close>\<close>
  "five_minutes = 5 * 60 * 1000000"

definition get_all_sessions :: "datetime \<Rightarrow> server \<Rightarrow> response \<times> server" where
  "get_all_sessions current_time s =
     (let s = s\<lparr>active_sessions :=
                 map (\<lambda>(session_id, data).
                        if current_time - last_update data > five_minutes
                        then (session_id, data\<lparr>status := Disconnected\<rparr>)
                        else (session_id, data))
                     (active_sessions s)\<rparr>
      in ((Sessions (active_sessions s) (length (active_sessions s)), 200), s))"

definition get_session_details :: "string \<Rightarrow> server \<Rightarrow> response \<times> server" where
  "get_session_details session_id s =
     (case map_of (active_sessions s) session_id of
        Some view \<Rightarrow> ((Details view, 200), s)
      | None \<Rightarrow> ((Error ''Session not found'', 404), s))"

definition end_session :: "datetime \<Rightarrow> string \<Rightarrow> server \<Rightarrow> response \<times> server" where
  "end_session now session_id s =
     (case map_of (active_sessions s) session_id of
        Some view \<Rightarrow>
          (let view = view\<lparr>status := Ended\<rparr>;
               s = s\<lparr>active_sessions := AList.update session_id view (active_sessions s)\<rparr>;
               report = \<lparr>fr_session_id = session_id,
                         fr_candidate_name = candidate_name view,
                         final_score = detection_score view,
                         total_alerts = length (view_alerts view),
                         ended_at = now\<rparr>;
               s = emit (Session_ended report) s
           in ((Final report, 200), s))
      | None \<Rightarrow> ((Error ''Session not found'', 404), s))"

text \<open>Sequences of requests: each request carries the time at which it is served.\<close>

datatype request =
  Create_session "string option" string string
| Report report
| Get_all_sessions
| Get_session_details string
| End_session string

fun serve :: "datetime \<times> request \<Rightarrow> server \<Rightarrow> response \<times> server" where
  "serve (now, Create_session name sid tok) s = create_session now name sid tok s"
| "serve (now, Report data) s = receive_detection_report now data s"
| "serve (now, Get_all_sessions) s = get_all_sessions now s"
| "serve (now, Get_session_details sid) s = get_session_details sid s"
| "serve (now, End_session sid) s = end_session now sid s"

fun run :: "(datetime \<times> request) list \<Rightarrow> server \<Rightarrow> server" where
  "run [] s = s"
| "run (rq # rqs) s = run rqs (snd (serve rq s))"

fun fresh_ids :: "(datetime \<times> request) list \<Rightarrow> server \<Rightarrow> bool" where
  \<comment> \<open>every \<open>create_session\<close> of the sequence draws an id the registry does not hold yet\<close>
  "fresh_ids [] s = True"
| "fresh_ids (rq # rqs) s =
     ((case snd rq of
         Create_session name sid tok \<Rightarrow> map_of (session_tokens s) sid = None
       | _ \<Rightarrow> True)
      \<and> fresh_ids rqs (snd (serve rq s)))"

fun creates :: "string \<Rightarrow> datetime \<times> request \<Rightarrow> bool" where
  "creates sid (now, Create_session name sid' tok) = (sid' = sid)"
| "creates sid (now, rq) = False"

section \<open>Auxiliary definitions for the statements\<close>

text \<open>
  The check at the head of \<open>receive_detection_report\<close>, the view it stores, the
  alerts the loops append, the invariant of reachable servers, and the concrete servers,
  requests and detectors on which the theorems are evaluated.
\<close>

definition authenticates :: "server \<Rightarrow> report \<Rightarrow> bool" where
  \<comment> \<open>the two checks under "Verify token": the id is a key of \<open>session_tokens\<close>
     and the stored token equals the report's\<close>
  "authenticates s data =
     (case r_session_id data of
        None \<Rightarrow> False
      | Some session_id \<Rightarrow>
          (case map_of (session_tokens s) session_id of
             None \<Rightarrow> False
           | Some entry \<Rightarrow> Some (tok_token entry) = r_token data))"

definition stored_view :: "string \<Rightarrow> datetime \<Rightarrow> report \<Rightarrow> session_view" where
  \<comment> \<open>the dictionary an accepted report stores in \<open>active_sessions\<close>\<close>
  "stored_view name now data =
     \<lparr>candidate_name = name,
      last_update = now,
      detection_score = get_or (r_detection_score data) 0,
      view_alerts = get_or (r_alerts data) [],
      process_score = get_or (r_process_score data) 0,
      audio_score = get_or (r_audio_score data) 0,
      behavior_score = get_or (r_behavior_score data) 0,
      suspicious_processes = get_or (r_suspicious_processes data) [],
      status = Active\<rparr>"

definition alice :: server where
  \<comment> \<open>the server after one session was created for Alice at time 0\<close>
  "alice = snd (create_session 0 (Some ''Alice'') ''sid1'' ''tok1'' init)"

definition report_of :: "string \<Rightarrow> string \<Rightarrow> real \<Rightarrow> report" where
  \<comment> \<open>a report with an id, a token and a detection score, the other fields absent\<close>
  "report_of sid tok score =
     \<lparr>r_session_id = Some sid, r_token = Some tok, r_detection_score = Some score,
      r_alerts = None, r_process_score = None, r_audio_score = None,
      r_behavior_score = None, r_suspicious_processes = None\<rparr>"

definition alice_active :: server where
  \<comment> \<open>Alice's session after a report served at time 0\<close>
  "alice_active = snd (receive_detection_report 0 (report_of ''sid1'' ''tok1'' 0.9) alice)"

definition consistent :: "server \<Rightarrow> bool" where
  \<comment> \<open>the keys of \<open>active_sessions\<close> are distinct, and each has an entry with status
     \<open>active\<close> in \<open>session_tokens\<close>\<close>
  "consistent s \<longleftrightarrow>
     distinct (map fst (active_sessions s)) \<and>
     (\<forall>sid \<in> fst ` set (active_sessions s).
        \<exists>e. map_of (session_tokens s) sid = Some e \<and> tok_status e = Active)"

definition late_report :: "(datetime \<times> request) list" where
  \<comment> \<open>create, report, end-session, and a report after the end\<close>
  "late_report =
     [(0, Create_session (Some ''Alice'') ''sid1'' ''tok1''),
      (1, Report (report_of ''sid1'' ''tok1'' 0.9)),
      (2, End_session ''sid1''),
      (3, Report (report_of ''sid1'' ''tok1'' 0.9))]"





definition pause_then_speech :: captured where
  \<comment> \<open>33 silent frames followed by 160 frames of speech\<close>
  "pause_then_speech =
     \<lparr>energy = replicate 33 0 @ replicate 160 1, audio_len = 98304, pitch_std = 120,
      spectral_centroid_mean = 1500\<rparr>"

definition medium_audio_alert :: "datetime \<Rightarrow> details \<Rightarrow> alert" where
  \<comment> \<open>the alert both \<open>_monitor_audio\<close> loops build, up to its details\<close>
  "medium_audio_alert now d =
     \<lparr>timestamp = now, atype = AUDIO_ANOMALY, severity = MEDIUM, details = d\<rparr>"

section \<open>Classifier theorems\<close>

lemma high_scores_count:
  "(2 \<le> sum_list [1::nat. s \<leftarrow> [p, a, b], s > th]) = at_least_two_exceed th p a b"
  by (auto simp: at_least_two_exceed_def)

lemma rule_based_prediction_spec:
  "rule_based_prediction f =
     spec_predict (get f ''process_score'' 0) (get f ''audio_score'' 0) (get f ''behavior_score'' 0)"
  unfolding rule_based_prediction_def spec_predict_def spec_boost2_def spec_boost1_def
    spec_combined_def Let_def high_scores_count
  by (simp add: max.assoc mult.commute)

lemma get_feature_input:
  "get (feature_input p a b t) ''process_score'' d = p"
  "get (feature_input p a b t) ''audio_score'' d = a"
  "get (feature_input p a b t) ''behavior_score'' d = b"
  by (simp_all add: get_def feature_input_def)

lemma predict_untrained:
  "\<not> (is_trained clf \<and> model clf \<noteq> None) \<Longrightarrow> predict clf f = rule_based_prediction f"
  by (auto simp: predict_def Let_def)

lemma spec_predict_bounds:
  assumes "0 \<le> p" "p \<le> 1" "0 \<le> a" "a \<le> 1" "0 \<le> b" "b \<le> 1"
  shows "0 \<le> spec_predict p a b \<and> spec_predict p a b \<le> 1"
proof -
  let ?c = "spec_combined p a b"
  have c: "0 \<le> ?c" "?c \<le> 1" using assms by (simp_all add: spec_combined_def)
  let ?c1 = "spec_boost1 p a b ?c"
  have c1: "0 \<le> ?c1" "?c1 \<le> 1" using c by (auto simp: spec_boost1_def max_def)
  show ?thesis using c1 by (simp add: spec_predict_def spec_boost2_def)
qed

text \<open>
  Claim C1.  When no trained model is in use, \<open>predict\<close> is the reference definition:
  the weighted sum \<open>0.4 p + 0.35 a + 0.25 b\<close>, then the floor \<open>0.85\<close> when the largest
  score exceeds \<open>0.9\<close>, then \<open>+ 0.15\<close> capped at \<open>1\<close> when at least two scores exceed
  \<open>0.6\<close>, in this order; a key missing from the dictionary counts as \<open>0\<close>.  On
  \<open>(0.95, 0, 0)\<close> the result is at least \<open>0.85\<close>, and on \<open>(0.95, 0.7, 0)\<close> both boosts
  apply: the floor lifts \<open>0.625\<close> to \<open>0.85\<close> and the second boost then reaches \<open>1\<close>.
\<close>

theorem predict_refines_spec:
  assumes "\<not> (is_trained clf \<and> model clf \<noteq> None)"
  shows "predict clf f =
           spec_predict (get f ''process_score'' 0) (get f ''audio_score'' 0)
             (get f ''behavior_score'' 0)
         \<and> predict clf (feature_input p a b t) = spec_predict p a b
         \<and> predict clf (feature_input 0.95 0 0 t) \<ge> 0.85
         \<and> predict clf (feature_input 0.95 0.7 0 t) = 1"
proof -
  have r: "\<And>g. predict clf g = rule_based_prediction g"
    using assms by (rule predict_untrained)
  have 1: "predict clf f =
           spec_predict (get f ''process_score'' 0) (get f ''audio_score'' 0)
             (get f ''behavior_score'' 0)"
    by (simp only: r rule_based_prediction_spec)
  have 2: "\<And>p a b. predict clf (feature_input p a b t) = spec_predict p a b"
    by (simp only: r rule_based_prediction_spec get_feature_input)
  have 3: "spec_predict 0.95 0 0 \<ge> 0.85"
    by (simp add: spec_predict_def spec_boost2_def spec_boost1_def spec_combined_def
        at_least_two_exceed_def)
  have 4: "spec_predict 0.95 0.7 0 = 1"
    by (simp add: spec_predict_def spec_boost2_def spec_boost1_def spec_combined_def
        at_least_two_exceed_def)
  show ?thesis using 1 2 3 4 by simp
qed

theorem predict_refines_spec_witness:
  "\<not> (is_trained rule_based \<and> model rule_based \<noteq> None)
   \<and> predict rule_based (feature_input 0.7 0.7 0 0) = 0.675
   \<and> predict rule_based (feature_input 0.95 0 0 0) \<ge> 0.85"
  using predict_refines_spec [of rule_based "[]" "0.7" "0.7" 0 0]
  by (simp add: rule_based_def spec_predict_def spec_boost2_def spec_boost1_def
      spec_combined_def at_least_two_exceed_def)

text \<open>
  Claim C2.  When no trained model is in use and the three scores read from the feature
  dictionary lie in \<open>[0, 1]\<close>, the prediction lies in \<open>[0, 1]\<close>, also when both boosts
  apply.
\<close>

theorem predict_in_unit_interval:
  assumes "\<not> (is_trained clf \<and> model clf \<noteq> None)"
    and "0 \<le> get f ''process_score'' 0 \<and> get f ''process_score'' 0 \<le> 1"
    and "0 \<le> get f ''audio_score'' 0 \<and> get f ''audio_score'' 0 \<le> 1"
    and "0 \<le> get f ''behavior_score'' 0 \<and> get f ''behavior_score'' 0 \<le> 1"
  shows "0 \<le> predict clf f \<and> predict clf f \<le> 1"
proof -
  have "predict clf f = spec_predict (get f ''process_score'' 0)
          (get f ''audio_score'' 0) (get f ''behavior_score'' 0)"
    using predict_untrained [OF assms(1)] by (simp only: rule_based_prediction_spec)
  then show ?thesis
    using spec_predict_bounds assms(2,3,4) by simp
qed

theorem predict_in_unit_interval_witness:
  "0 \<le> predict rule_based (feature_input 1 1 1 0)
   \<and> predict rule_based (feature_input 1 1 1 0) \<le> 1
   \<and> predict rule_based (feature_input 1 1 1 0) = 1"
  using predict_in_unit_interval [of rule_based "feature_input 1 1 1 0"]
  by (simp add: rule_based_def get_feature_input predict_def rule_based_prediction_def Let_def)

section \<open>Report authentication\<close>

lemma receive_rejected:
  "\<not> authenticates s data \<Longrightarrow>
     snd (fst (receive_detection_report now data s)) = 401
     \<and> snd (receive_detection_report now data s) = s"
  by (auto simp: authenticates_def receive_detection_report_def split: option.splits)

lemma receive_accepted:
  assumes "r_session_id data = Some sid" "map_of (session_tokens s) sid = Some e"
    "r_token data = Some (tok_token e)"
  shows "fst (receive_detection_report now data s) = (Status ''success'', 200)"
    and "session_tokens (snd (receive_detection_report now data s)) =
           AList.update sid (e\<lparr>tok_status := Active\<rparr>) (session_tokens s)"
    and "active_sessions (snd (receive_detection_report now data s)) =
           AList.update sid (stored_view (tok_candidate_name e) now data) (active_sessions s)"
  using assms
  by (simp_all add: receive_detection_report_def Let_def emit_def stored_view_def)

text \<open>
  Claim C9.  A report that fails authentication (no session id, an unknown one, or a
  token that differs from the session's) is answered with status 401 and leaves the
  server as it was: the token table, every stored view (status, scores, alerts,
  \<open>last_update\<close>) and the list of emitted events are the same.
\<close>

theorem failed_authentication_changes_nothing:
  assumes "\<not> authenticates s data"
  shows "snd (fst (receive_detection_report now data s)) = 401
         \<and> snd (receive_detection_report now data s) = s
         \<and> session_tokens (snd (receive_detection_report now data s)) = session_tokens s
         \<and> active_sessions (snd (receive_detection_report now data s)) = active_sessions s
         \<and> emitted (snd (receive_detection_report now data s)) = emitted s"
  using receive_rejected [OF assms] by simp

lemma alice_eq:
  "alice = \<lparr>session_tokens = [(''sid1'', \<lparr>tok_token = ''tok1'', tok_candidate_name = ''Alice'',
       tok_created_at = 0, tok_status = Waiting\<rparr>)], active_sessions = [], emitted = []\<rparr>"
  by (simp add: alice_def create_session_def init_def get_or_def Let_def)

theorem failed_authentication_changes_nothing_witness:
  "\<not> authenticates alice (report_of ''sid1'' ''bad'' 0.9)
   \<and> receive_detection_report 5 (report_of ''sid1'' ''bad'' 0.9) alice
       = ((Error ''Invalid token'', 401), alice)"
  using failed_authentication_changes_nothing [of alice "report_of ''sid1'' ''bad'' 0.9" 5]
  by (simp add: alice_eq report_of_def authenticates_def receive_detection_report_def)

text \<open>
  Claim C3, amended.  A report that fails authentication is answered with status 401 in
  both cases, but the body names the cause: \<open>Invalid session\<close> when the id is absent
  or unknown, \<open>Invalid token\<close> when the id is known and the token differs.  The two
  answers share the status code only.
\<close>

theorem rejection_names_the_cause:
  assumes "\<not> authenticates s data"
  shows "fst (receive_detection_report now data s) =
           (Error (if r_session_id data = None
                      \<or> map_of (session_tokens s) (the (r_session_id data)) = None
                   then ''Invalid session'' else ''Invalid token''), 401)"
  using assms
  by (auto simp: authenticates_def receive_detection_report_def split: option.splits)

theorem rejection_names_the_cause_witness:
  "\<not> authenticates alice (report_of ''nope'' ''tok1'' 0.9)
   \<and> fst (receive_detection_report 5 (report_of ''nope'' ''tok1'' 0.9) alice)
       = (Error ''Invalid session'', 401)"
  using rejection_names_the_cause [of alice "report_of ''nope'' ''tok1'' 0.9" 5]
  by (simp add: alice_eq report_of_def authenticates_def)

text \<open>
  Claim C3 as stated fails: against Alice's session, the answer to an unknown id differs
  from the answer to the right id with a wrong token.
\<close>

theorem rejection_not_generic:
  "\<not> authenticates alice (report_of ''nope'' ''tok1'' 0.9)
   \<and> \<not> authenticates alice (report_of ''sid1'' ''bad'' 0.9)
   \<and> fst (receive_detection_report 5 (report_of ''nope'' ''tok1'' 0.9) alice)
      \<noteq> fst (receive_detection_report 5 (report_of ''sid1'' ''bad'' 0.9) alice)"
  by (simp add: alice_eq report_of_def authenticates_def receive_detection_report_def)

section \<open>Report ingestion and the session list\<close>

lemma map_of_update_same: "map_of (AList.update k v al) k = Some v"
  by (simp add: update_conv')

text \<open>
  Claim C6.  Two reports for the same session that both carry its token are both
  accepted.  After the first the session's entry has status \<open>active\<close> and its view
  holds the first report's fields (absent ones defaulted), \<open>last_update\<close> the time
  of the first report and status \<open>active\<close>; after the second the entry still has
  status \<open>active\<close> and the view holds the second report's fields and time.
\<close>

theorem ingest_twice_stays_active:
  assumes "r_session_id d1 = Some sid" and "r_session_id d2 = Some sid"
    and "map_of (session_tokens s) sid = Some e"
    and "r_token d1 = Some (tok_token e)" and "r_token d2 = Some (tok_token e)"
    and "s1 = snd (receive_detection_report t1 d1 s)"
    and "s2 = snd (receive_detection_report t2 d2 s1)"
  shows "fst (receive_detection_report t1 d1 s) = (Status ''success'', 200)
         \<and> map_of (session_tokens s1) sid = Some (e\<lparr>tok_status := Active\<rparr>)
         \<and> map_of (active_sessions s1) sid = Some (stored_view (tok_candidate_name e) t1 d1)
         \<and> fst (receive_detection_report t2 d2 s1) = (Status ''success'', 200)
         \<and> map_of (session_tokens s2) sid = Some (e\<lparr>tok_status := Active\<rparr>)
         \<and> map_of (active_sessions s2) sid = Some (stored_view (tok_candidate_name e) t2 d2)
         \<and> status (stored_view (tok_candidate_name e) t1 d1) = Active
         \<and> status (stored_view (tok_candidate_name e) t2 d2) = Active
         \<and> last_update (stored_view (tok_candidate_name e) t2 d2) = t2"
proof -
  note first = receive_accepted [OF assms(1) assms(3) assms(4), of t1]
  have tok1: "map_of (session_tokens s1) sid = Some (e\<lparr>tok_status := Active\<rparr>)"
    using first(2) assms(6) by (simp add: map_of_update_same)
  have view1: "map_of (active_sessions s1) sid = Some (stored_view (tok_candidate_name e) t1 d1)"
    using first(3) assms(6) by (simp add: map_of_update_same)
  have auth2: "r_token d2 = Some (tok_token (e\<lparr>tok_status := Active\<rparr>))"
    using assms(5) by simp
  note second = receive_accepted [OF assms(2) tok1 auth2, of t2]
  have tok2: "map_of (session_tokens s2) sid = Some (e\<lparr>tok_status := Active\<rparr>)"
    using second(2) assms(7) by (simp add: map_of_update_same)
  have view2: "map_of (active_sessions s2) sid = Some (stored_view (tok_candidate_name e) t2 d2)"
    using second(3) assms(7) by (simp add: map_of_update_same)
  show ?thesis
    using first(1) second(1) tok1 tok2 view1 view2 by (simp add: stored_view_def)
qed

theorem ingest_twice_stays_active_witness:
  "map_of (active_sessions (snd (receive_detection_report 7 (report_of ''sid1'' ''tok1'' 0.2)
      (snd (receive_detection_report 5 (report_of ''sid1'' ''tok1'' 0.9) alice))))) ''sid1''
   = Some \<lparr>candidate_name = ''Alice'', last_update = 7, detection_score = 0.2,
      view_alerts = [], process_score = 0, audio_score = 0, behavior_score = 0,
      suspicious_processes = [], status = Active\<rparr>"
  using ingest_twice_stays_active [of "report_of ''sid1'' ''tok1'' 0.9" "''sid1''"
      "report_of ''sid1'' ''tok1'' 0.2" alice
      "\<lparr>tok_token = ''tok1'', tok_candidate_name = ''Alice'', tok_created_at = 0,
        tok_status = Waiting\<rparr>" _ 5 _ 7, OF _ _ _ _ _ refl refl]
  by (simp add: alice_eq report_of_def stored_view_def get_or_def)

lemma map_of_stale_map:
  "map_of (map (\<lambda>(session_id, data).
                  if c data then (session_id, f data) else (session_id, data)) xs) k
   = map_option (\<lambda>data. if c data then f data else data) (map_of xs k)"
  by (induction xs) auto

lemma get_all_sessions_response:
  "fst (get_all_sessions now s) =
     (Sessions (active_sessions (snd (get_all_sessions now s)))
        (length (active_sessions s)), 200)"
  by (simp add: get_all_sessions_def Let_def)

lemma get_all_sessions_lookup:
  "map_of (active_sessions (snd (get_all_sessions now s))) k =
     map_option (\<lambda>data. if now - last_update data > five_minutes
                         then data\<lparr>status := Disconnected\<rparr> else data)
       (map_of (active_sessions s) k)"
  by (simp add: get_all_sessions_def Let_def map_of_stale_map)

lemma get_all_sessions_keys:
  "map fst (active_sessions (snd (get_all_sessions now s))) = map fst (active_sessions s)"
  by (simp add: get_all_sessions_def Let_def) (induction "active_sessions s", auto)

text \<open>
  Claim C5.  The session list answers with every stored session and their number; a
  session whose \<open>last_update\<close> is more than five minutes (300000000 microseconds)
  before the query time is listed with status \<open>disconnected\<close>, any other session is
  listed as stored.
\<close>

theorem stale_sessions_reported_disconnected:
  assumes "map_of (active_sessions s) sid = Some v"
  shows "\<exists>listed. fst (get_all_sessions now s) = (Sessions listed (length listed), 200)
           \<and> (now - last_update v > 300000000 \<longrightarrow>
                map_of listed sid = Some (v\<lparr>status := Disconnected\<rparr>))
           \<and> (now - last_update v \<le> 300000000 \<longrightarrow> map_of listed sid = Some v)"
proof -
  let ?listed = "active_sessions (snd (get_all_sessions now s))"
  have len: "length ?listed = length (active_sessions s)"
    using get_all_sessions_keys [of now s] by (metis length_map)
  have "fst (get_all_sessions now s) = (Sessions ?listed (length ?listed), 200)"
    by (simp only: len get_all_sessions_response)
  moreover have "now - last_update v > 300000000 \<longrightarrow>
      map_of ?listed sid = Some (v\<lparr>status := Disconnected\<rparr>)"
    using assms by (simp add: get_all_sessions_lookup five_minutes_def)
  moreover have "now - last_update v \<le> 300000000 \<longrightarrow> map_of ?listed sid = Some v"
    using assms by (simp add: get_all_sessions_lookup five_minutes_def)
  ultimately show ?thesis by blast
qed

lemma alice_active_sessions:
  "active_sessions alice_active = [(''sid1'', stored_view ''Alice'' 0 (report_of ''sid1'' ''tok1'' 0.9))]"
  by (simp add: alice_active_def alice_eq report_of_def receive_detection_report_def
      stored_view_def Let_def emit_def get_or_def)

theorem stale_sessions_reported_disconnected_witness:
  "fst (get_all_sessions 299000000 alice_active) =
     (Sessions [(''sid1'', stored_view ''Alice'' 0 (report_of ''sid1'' ''tok1'' 0.9))] 1, 200)
   \<and> fst (get_all_sessions 300000001 alice_active) =
     (Sessions [(''sid1'', (stored_view ''Alice'' 0 (report_of ''sid1'' ''tok1'' 0.9))
                  \<lparr>status := Disconnected\<rparr>)] 1, 200)"
  using stale_sessions_reported_disconnected [of alice_active "''sid1''"
      "stored_view ''Alice'' 0 (report_of ''sid1'' ''tok1'' 0.9)" 299000000]
    stale_sessions_reported_disconnected [of alice_active "''sid1''"
      "stored_view ''Alice'' 0 (report_of ''sid1'' ''tok1'' 0.9)" 300000001]
  by (simp add: alice_active_sessions get_all_sessions_def Let_def five_minutes_def
      stored_view_def)

section \<open>Session status under sequences of requests\<close>

lemma receive_cases:
  obtains (rejected) "\<not> authenticates s data" "snd (receive_detection_report now data s) = s"
  | (accepted) sid e where "authenticates s data" "r_session_id data = Some sid"
      "map_of (session_tokens s) sid = Some e" "r_token data = Some (tok_token e)"
proof (cases "authenticates s data")
  case False
  then show ?thesis using rejected receive_rejected by blast
next
  case True
  then obtain sid e where "r_session_id data = Some sid"
    "map_of (session_tokens s) sid = Some e" "r_token data = Some (tok_token e)"
    by (auto simp: authenticates_def split: option.splits)
  then show ?thesis using accepted True by blast
qed

lemma end_session_unknown:
  "map_of (active_sessions s) sid = None \<Longrightarrow>
     end_session now sid s = ((Error ''Session not found'', 404), s)"
  by (simp add: end_session_def)

lemma end_session_known:
  assumes "map_of (active_sessions s) sid = Some v"
  shows "active_sessions (snd (end_session now sid s)) =
           AList.update sid (v\<lparr>status := Ended\<rparr>) (active_sessions s)"
    and "session_tokens (snd (end_session now sid s)) = session_tokens s"
  using assms by (simp_all add: end_session_def Let_def emit_def)

lemma create_session_state:
  "active_sessions (snd (create_session now name sid tok s)) = active_sessions s"
  "session_tokens (snd (create_session now name sid tok s)) =
     AList.update sid \<lparr>tok_token = tok, tok_candidate_name = get_or name ''Unknown'',
        tok_created_at = now, tok_status = Waiting\<rparr> (session_tokens s)"
  by (simp_all add: create_session_def Let_def)

lemma get_all_sessions_tokens:
  "session_tokens (snd (get_all_sessions now s)) = session_tokens s"
  by (simp add: get_all_sessions_def Let_def)

lemma get_session_details_state: "snd (get_session_details sid s) = s"
  by (simp add: get_session_details_def split: option.splits)

lemma map_of_update_other: "k' \<noteq> k \<Longrightarrow> map_of (AList.update k v al) k' = map_of al k'"
  by (simp add: update_conv')

lemma key_in_update: "map_of al k = Some v \<Longrightarrow> fst ` set (AList.update k w al) = fst ` set al"
  by (auto simp: dom_update dest: map_of_SomeD intro: rev_image_eqI)

lemma serve_view:
  assumes "map_of (active_sessions s) sid = Some v"
  shows "\<exists>v'. map_of (active_sessions (snd (serve rq s))) sid = Some v' \<and>
           (status v' = status v
            \<or> status v' = Active \<and>
                (\<exists>d. snd rq = Report d \<and> r_session_id d = Some sid \<and> authenticates s d)
            \<or> status v' = Ended \<and> snd rq = End_session sid
            \<or> status v' = Disconnected \<and> snd rq = Get_all_sessions
                \<and> fst rq - last_update v > 300000000)"
proof (cases rq)
  case (Pair now r)
  show ?thesis
  proof (cases r)
    case (Create_session name sid' tok)
    then show ?thesis using assms Pair by (simp add: create_session_state)
  next
    case (Report d)
    show ?thesis
    proof (cases rule: receive_cases [of s d now])
      case rejected
      then show ?thesis using assms Pair Report by simp
    next
      case (accepted sid' e)
      note upd = receive_accepted(3) [OF accepted(2,3,4), of now]
      show ?thesis
      proof (cases "sid' = sid")
        case True
        then show ?thesis using Pair Report upd accepted
          by (simp add: map_of_update_same stored_view_def)
      next
        case False
        then show ?thesis using Pair Report upd assms
          by (simp add: map_of_update_other)
      qed
    qed
  next
    case Get_all_sessions
    then show ?thesis using assms Pair
      by (simp add: get_all_sessions_lookup five_minutes_def)
  next
    case (Get_session_details sid')
    then show ?thesis using assms Pair by (simp add: get_session_details_state)
  next
    case (End_session sid')
    show ?thesis
    proof (cases "map_of (active_sessions s) sid'")
      case None
      then show ?thesis using assms Pair End_session by (simp add: end_session_unknown)
    next
      case (Some w)
      note upd = end_session_known(1) [OF Some, of now]
      show ?thesis
      proof (cases "sid' = sid")
        case True
        then show ?thesis using Pair End_session upd by (simp add: map_of_update_same)
      next
        case False
        then show ?thesis using Pair End_session upd assms by (simp add: map_of_update_other)
      qed
    qed
  qed
qed

lemma serve_token:
  assumes "map_of (session_tokens s) sid = Some e" and "\<not> creates sid rq"
  shows "\<exists>e'. map_of (session_tokens (snd (serve rq s))) sid = Some e' \<and>
           tok_token e' = tok_token e \<and>
           (tok_status e' = tok_status e \<or> tok_status e' = Active)"
proof (cases rq)
  case (Pair now r)
  show ?thesis
  proof (cases r)
    case (Create_session name sid' tok)
    then have "sid' \<noteq> sid" using assms(2) Pair by simp
    then show ?thesis using assms Pair Create_session
      by (simp add: create_session_state map_of_update_other)
  next
    case (Report d)
    show ?thesis
    proof (cases rule: receive_cases [of s d now])
      case rejected
      then show ?thesis using assms Pair Report by simp
    next
      case (accepted sid' e0)
      note upd = receive_accepted(2) [OF accepted(2,3,4), of now]
      show ?thesis
      proof (cases "sid' = sid")
        case True
        then show ?thesis using Pair Report upd accepted assms
          by (simp add: map_of_update_same)
      next
        case False
        then show ?thesis using Pair Report upd assms
          by (simp add: map_of_update_other)
      qed
    qed
  next
    case Get_all_sessions
    then show ?thesis using assms Pair by (simp add: get_all_sessions_tokens)
  next
    case (Get_session_details sid')
    then show ?thesis using assms Pair by (simp add: get_session_details_state)
  next
    case (End_session sid')
    show ?thesis
    proof (cases "map_of (active_sessions s) sid'")
      case None
      then show ?thesis using assms Pair End_session by (simp add: end_session_unknown)
    next
      case (Some w)
      then show ?thesis using assms Pair End_session by (simp add: end_session_known)
    qed
  qed
qed

lemma run_view:
  "map_of (active_sessions s) sid = Some v \<Longrightarrow> status v \<noteq> Waiting \<Longrightarrow>
     \<exists>v'. map_of (active_sessions (run rqs s)) sid = Some v' \<and> status v' \<noteq> Waiting"
proof (induction rqs arbitrary: s v)
  case Nil
  then show ?case by simp
next
  case (Cons rq rqs)
  from serve_view [OF Cons.prems(1), of rq]
  obtain v' where v': "map_of (active_sessions (snd (serve rq s))) sid = Some v'"
    and "status v' = status v \<or> status v' = Active \<or> status v' = Ended
         \<or> status v' = Disconnected"
    by blast
  then have nw: "status v' \<noteq> Waiting" using Cons.prems(2) by auto
  from Cons.IH [OF v' nw] show ?case by simp
qed

lemma run_token:
  "map_of (session_tokens s) sid = Some e \<Longrightarrow> tok_status e = Active \<Longrightarrow>
   \<forall>rq \<in> set rqs. \<not> creates sid rq \<Longrightarrow>
     \<exists>e'. map_of (session_tokens (run rqs s)) sid = Some e' \<and> tok_status e' = Active"
proof (induction rqs arbitrary: s e)
  case Nil
  then show ?case by simp
next
  case (Cons rq rqs)
  have "\<not> creates sid rq" using Cons.prems(3) by simp
  from serve_token [OF Cons.prems(1) this]
  obtain e' where e': "map_of (session_tokens (snd (serve rq s))) sid = Some e'"
    and act: "tok_status e' = Active" using Cons.prems(2) by auto
  from Cons.IH [OF e' act] Cons.prems(3) show ?case by simp
qed

text \<open>
  Claim C4, amended.  A session that has a view (status other than \<open>waiting\<close>) and an
  entry with status \<open>active\<close> keeps both under every sequence of requests that does
  not draw its id again: it never returns to \<open>waiting\<close>.  One request leaves the
  view's status as it was, or sets it to \<open>active\<close> (an authenticated report for the
  session, from any status), to \<open>ended\<close> (end-session), or to \<open>disconnected\<close>
  (a list query more than five minutes after \<open>last_update\<close>, from any status).
\<close>

theorem status_never_returns_to_waiting:
  assumes "map_of (active_sessions s) sid = Some v" and "status v \<noteq> Waiting"
    and "map_of (session_tokens s) sid = Some e" and "tok_status e = Active"
    and "\<forall>rq \<in> set rqs. \<not> creates sid rq"
  shows "(\<exists>v'. map_of (active_sessions (run rqs s)) sid = Some v' \<and> status v' \<noteq> Waiting)
       \<and> (\<exists>e'. map_of (session_tokens (run rqs s)) sid = Some e' \<and> tok_status e' = Active)
       \<and> (\<exists>v'. map_of (active_sessions (snd (serve rq s))) sid = Some v' \<and>
             (status v' = status v
              \<or> status v' = Active \<and>
                  (\<exists>d. snd rq = Report d \<and> r_session_id d = Some sid \<and> authenticates s d)
              \<or> status v' = Ended \<and> snd rq = End_session sid
              \<or> status v' = Disconnected \<and> snd rq = Get_all_sessions
                  \<and> fst rq - last_update v > 300000000))"
  using run_view [OF assms(1,2)] run_token [OF assms(3,4,5)] serve_view [OF assms(1)]
  by blast

text \<open>
  Claim C4 as stated fails: after create, report and end-session the status is
  \<open>ended\<close>; one more authenticated report makes it \<open>active\<close> again.
\<close>

theorem ended_session_returns_to_active:
  "map_option status (map_of (active_sessions (run (take 3 late_report) init)) ''sid1'')
     = Some Ended
   \<and> map_option status (map_of (active_sessions (run late_report init)) ''sid1'')
     = Some Active"
  by (simp add: late_report_def init_def create_session_def receive_detection_report_def
      end_session_def Let_def emit_def get_or_def report_of_def)

theorem status_never_returns_to_waiting_witness:
  "map_option status (map_of (active_sessions
      (run [(2, End_session ''sid1''), (400000000, Get_all_sessions)] alice_active)) ''sid1'')
     = Some Disconnected
   \<and> map_option tok_status (map_of (session_tokens
      (run [(2, End_session ''sid1''), (400000000, Get_all_sessions)] alice_active)) ''sid1'')
     = Some Active"
  using status_never_returns_to_waiting [of alice_active "''sid1''"
      "stored_view ''Alice'' 0 (report_of ''sid1'' ''tok1'' 0.9)"
      "\<lparr>tok_token = ''tok1'', tok_candidate_name = ''Alice'', tok_created_at = 0,
        tok_status = Active\<rparr>"
      "[(2, End_session ''sid1''), (400000000, Get_all_sessions)]" "(2, End_session ''sid1'')"]
  by (simp add: alice_active_def alice_eq receive_detection_report_def
      end_session_def get_all_sessions_def five_minutes_def Let_def emit_def get_or_def
      report_of_def stored_view_def)

lemma consistent_init: "consistent init"
  by (simp add: consistent_def init_def)

lemma consistent_serve:
  assumes "consistent s" and "fresh_ids [rq] s"
  shows "consistent (snd (serve rq s))"
proof (cases rq)
  case (Pair now r)
  show ?thesis
  proof (cases r)
    case (Create_session name sid tok)
    then have fresh: "map_of (session_tokens s) sid = None" using assms(2) Pair by simp
    have "\<And>k. k \<in> fst ` set (active_sessions s) \<Longrightarrow> k \<noteq> sid"
      using assms(1) fresh by (auto simp: consistent_def)
    then show ?thesis using assms(1) Pair Create_session
      by (auto simp: consistent_def create_session_state map_of_update_other)
  next
    case (Report d)
    show ?thesis
    proof (cases rule: receive_cases [of s d now])
      case rejected
      then show ?thesis using assms Pair Report by simp
    next
      case (accepted sid e)
      note upd = receive_accepted(2,3) [OF accepted(2,3,4), of now]
      have "distinct (map fst (active_sessions (snd (receive_detection_report now d s))))"
        using assms(1) by (simp add: upd consistent_def distinct_update)
      moreover have "\<exists>e'. map_of (session_tokens (snd (receive_detection_report now d s))) k
            = Some e' \<and> tok_status e' = Active"
        if "k \<in> fst ` set (active_sessions (snd (receive_detection_report now d s)))" for k
      proof (cases "k = sid")
        case True
        then show ?thesis by (simp add: upd map_of_update_same)
      next
        case False
        then have "k \<in> fst ` set (active_sessions s)"
          using that by (simp add: upd dom_update)
        then have "\<exists>e'. map_of (session_tokens s) k = Some e' \<and> tok_status e' = Active"
          using assms(1) unfolding consistent_def by blast
        then show ?thesis using False
          by (simp add: upd map_of_update_other)
      qed
      ultimately show ?thesis using Pair Report by (simp add: consistent_def)
    qed
  next
    case Get_all_sessions
    have "fst ` set (active_sessions (snd (get_all_sessions now s))) = fst ` set (active_sessions s)"
      using get_all_sessions_keys [of now s] by (metis set_map)
    then show ?thesis using assms(1) Pair Get_all_sessions
      by (simp add: consistent_def get_all_sessions_keys get_all_sessions_tokens)
  next
    case (Get_session_details sid)
    then show ?thesis using assms(1) Pair by (simp add: get_session_details_state)
  next
    case (End_session sid)
    show ?thesis
    proof (cases "map_of (active_sessions s) sid")
      case None
      then show ?thesis using assms(1) Pair End_session by (simp add: end_session_unknown)
    next
      case (Some w)
      note upd = end_session_known [OF Some, of now]
      show ?thesis using assms(1) Pair End_session
        by (simp add: consistent_def upd distinct_update key_in_update [OF Some])
    qed
  qed
qed

lemma consistent_run:
  "consistent s \<Longrightarrow> fresh_ids rqs s \<Longrightarrow> consistent (run rqs s)"
proof (induction rqs arbitrary: s)
  case Nil
  then show ?case by simp
next
  case (Cons rq rqs)
  have "fresh_ids [rq] s" using Cons.prems(2) by simp
  then have "consistent (snd (serve rq s))" using Cons.prems(1) consistent_serve by blast
  then show ?case using Cons.IH Cons.prems(2) by simp
qed

text \<open>
  Claim C10.  In a server reached from the empty one by requests whose created ids are
  fresh, a session whose entry has status \<open>waiting\<close> is not among the sessions of the
  session list, whose count is the number of listed (pairwise distinct) ids; the detail
  query and end-session both answer 404 \<open>Session not found\<close> and change nothing.
\<close>

theorem waiting_session_is_invisible:
  assumes "fresh_ids rqs init" and "s = run rqs init"
    and "map_of (session_tokens s) sid = Some e" and "tok_status e = Waiting"
  shows "(\<exists>listed. fst (get_all_sessions now s) = (Sessions listed (length listed), 200)
            \<and> distinct (map fst listed) \<and> sid \<notin> fst ` set listed)
       \<and> get_session_details sid s = ((Error ''Session not found'', 404), s)
       \<and> end_session now sid s = ((Error ''Session not found'', 404), s)"
proof -
  have c: "consistent s" using assms(1,2) consistent_init consistent_run by blast
  then have notin: "sid \<notin> fst ` set (active_sessions s)"
    using assms(3,4) by (auto simp: consistent_def)
  then have none: "map_of (active_sessions s) sid = None"
    by (simp add: map_of_eq_None_iff)
  let ?listed = "active_sessions (snd (get_all_sessions now s))"
  have keys: "map fst ?listed = map fst (active_sessions s)"
    by (rule get_all_sessions_keys)
  have len: "length ?listed = length (active_sessions s)"
    using keys by (metis length_map)
  have "fst (get_all_sessions now s) = (Sessions ?listed (length ?listed), 200)"
    by (simp only: len get_all_sessions_response)
  moreover have "distinct (map fst ?listed)"
    using c by (simp add: keys consistent_def)
  moreover have "sid \<notin> fst ` set ?listed"
    using notin keys by (metis set_map)
  moreover have "get_session_details sid s = ((Error ''Session not found'', 404), s)"
    using none by (simp add: get_session_details_def)
  moreover have "end_session now sid s = ((Error ''Session not found'', 404), s)"
    using none by (rule end_session_unknown)
  ultimately show ?thesis by blast
qed

theorem waiting_session_is_invisible_witness:
  "fresh_ids [(0, Create_session (Some ''Alice'') ''sid1'' ''tok1'')] init
   \<and> fst (get_all_sessions 9 alice) = (Sessions [] 0, 200)
   \<and> get_session_details ''sid1'' alice = ((Error ''Session not found'', 404), alice)
   \<and> end_session 9 ''sid1'' alice = ((Error ''Session not found'', 404), alice)"
  using waiting_session_is_invisible [of "[(0, Create_session (Some ''Alice'') ''sid1'' ''tok1'')]"
      alice "''sid1''"
      "\<lparr>tok_token = ''tok1'', tok_candidate_name = ''Alice'', tok_created_at = 0,
        tok_status = Waiting\<rparr>" 9]
  by (simp add: alice_def init_def create_session_def get_all_sessions_def
      get_session_details_def end_session_def Let_def get_or_def)

section \<open>Alerts of the detector loops\<close>





lemma pause_score_high:
  "calculate_pause_pattern_score pauses fl > 0.7 \<Longrightarrow>
     calculate_pause_pattern_score pauses fl = 0.8 \<and> fl > 0.8"
  by (auto simp: calculate_pause_pattern_score_def Let_def split: if_splits)

lemma extract_audio_features_scores:
  "\<exists>pauses. get (extract_audio_features audio) ''pause_pattern_score'' d =
     calculate_pause_pattern_score pauses
       (get (extract_audio_features audio) ''fluency_score'' d')"
  by (simp add: extract_audio_features_def get_def Let_def del: ex_simps) blast

lemma analysed_pause_needs_fluency:
  assumes "analyze_realtime_audio collected = Some f"
    and "get f ''pause_pattern_score'' 0 > 0.7"
  shows "get f ''fluency_score'' 0 > 0.8"
proof -
  obtain audio where f: "f = extract_audio_features audio"
    using assms(1) by (auto simp: analyze_realtime_audio_def split: option.splits)
  obtain pauses where "get f ''pause_pattern_score'' 0 =
      calculate_pause_pattern_score pauses (get f ''fluency_score'' 0)"
    using extract_audio_features_scores [of audio 0 0] f by blast
  then show ?thesis
    using assms(2) pause_score_high by metis
qed

lemma pts_speech:
  "map (\<lambda>e. e > mean (energy pause_then_speech) * 0.3) (energy pause_then_speech)
     = replicate 33 False @ replicate 160 True"
  by (simp add: pause_then_speech_def mean_def sum_list_replicate)

lemma loop_skip_pause:
  "detect_pauses_loop (enumerate k (replicate n False) @ rest) ps True s
     = detect_pauses_loop rest ps True s"
  by (induction n arbitrary: k) simp_all

lemma loop_skip_speech:
  "detect_pauses_loop (enumerate k (replicate n True) @ rest) ps False s
     = detect_pauses_loop rest ps False s"
  by (induction n arbitrary: k) simp_all

lemma pts_pauses:
  "detect_pauses (replicate 33 False @ replicate 160 True) = [(0, 33)]"
proof -
  have a: "replicate 33 False = False # replicate 32 False"
    by (simp add: eval_nat_numeral)
  have b: "replicate 160 True = True # replicate 159 True"
    by (simp add: eval_nat_numeral)
  have "detect_pauses (replicate 33 False @ replicate 160 True)
      = detect_pauses_loop (enumerate 1 (replicate 32 False) @
           ((33, True) # (enumerate 34 (replicate 159 True) @ []))) [] True 0"
    unfolding detect_pauses_def a unfolding b by (simp add: enumerate_append_eq)
  also have "\<dots> = detect_pauses_loop ((33, True) # (enumerate 34 (replicate 159 True) @ [])) [] True 0"
    by (rule loop_skip_pause)
  also have "\<dots> = detect_pauses_loop (enumerate 34 (replicate 159 True) @ []) [(0, 33)] False 0"
    by simp
  also have "\<dots> = [(0, 33)]"
    by (simp only: loop_skip_speech detect_pauses_loop.simps)
  finally show ?thesis .
qed

lemma zip_replicate_same:
  "\<not> P (a, a) \<Longrightarrow> filter P (zip (replicate n a) (replicate n a)) = []"
  by (induction n) simp_all

lemma zip_replicate_longer:
  "\<not> P (a, a) \<Longrightarrow> filter P (zip (replicate n a @ zs) (replicate n a)) = []"
  by (induction n) simp_all

lemma pts_fluency:
  "calculate_fluency (replicate 33 False @ replicate 160 True) = 160 / 193 * 0.97"
proof -
  let ?xs = "replicate 33 False @ replicate 160 True"
  have l: "length ?xs = 193" by simp
  have c: "length (filter (\<lambda>x. x) ?xs) = 160" by simp
  have xs: "?xs = replicate 32 False @ [False] @ replicate 159 True @ [True]"
    by (simp add: eval_nat_numeral)
  have tl: "tl ?xs = replicate 32 False @ [True] @ replicate 159 True"
    by (simp add: eval_nat_numeral)
  have t: "length (filter (\<lambda>(x, y). y \<noteq> x) (zip ?xs (tl ?xs))) = 1"
    unfolding tl unfolding xs
    by (simp add: zip_append zip_replicate_same zip_replicate_longer del: replicate_Suc)
  show ?thesis
    unfolding calculate_fluency_def Let_def t c l by simp
qed

lemma pts_features:
  "extract_audio_features pause_then_speech =
     [(''pause_count'', 1), (''avg_pause_duration'', 33),
      (''fluency_score'', 160 / 193 * 0.97), (''pitch_variation'', 120),
      (''spectral_centroid_mean'', 1500), (''pause_pattern_score'', 0.8)]"
  unfolding extract_audio_features_def Let_def pts_speech pts_pauses pts_fluency
  by (simp add: calculate_pause_pattern_score_def mean_def pause_then_speech_def)

text \<open>
  Claim C8.  When the audio collaborator returns features with
  \<open>pause_pattern_score > 0.7\<close>, the candidate client appends a MEDIUM
  \<open>AUDIO_ANOMALY\<close> alert whatever \<open>fluency_score\<close> is, and so does the
  stand-alone detector on everything its analyzer returns: the analyzer sets
  \<open>pause_pattern_score\<close> to \<open>0.8\<close> only together with \<open>fluency_score > 0.8\<close>,
  and to \<open>0.3\<close> or \<open>0\<close> otherwise.  In the compound case
  (\<open>pause_pattern_score > 0.7\<close> and \<open>fluency_score > 0.8\<close>) the alert is MEDIUM too.
\<close>

theorem audio_alert_is_medium:
  assumes "get f ''pause_pattern_score'' 0 > 0.7"
  shows "client_monitor_audio now (Some (Returns (Some f))) als =
           als @ [medium_audio_alert now Speech_pattern]
       \<and> (analyze_realtime_audio collected = Some f \<longrightarrow>
            monitor_audio now (Returns (analyze_realtime_audio collected)) st =
              st\<lparr>alerts := alerts st @ [medium_audio_alert now
                (Speech_pattern_detected (get f ''pause_pattern_score'' 0)
                   (get f ''fluency_score'' 0))]\<rparr>)
       \<and> (get f ''fluency_score'' 0 > 0.8 \<longrightarrow>
            monitor_audio now (Returns (Some f)) st =
              st\<lparr>alerts := alerts st @ [medium_audio_alert now
                (Speech_pattern_detected (get f ''pause_pattern_score'' 0)
                   (get f ''fluency_score'' 0))]\<rparr>)"
proof -
  have "f \<noteq> []" using assms by (auto simp: get_def)
  then have t: "truthy (Some f)" by (simp add: truthy_def)
  have client: "client_monitor_audio now (Some (Returns (Some f))) als =
      als @ [medium_audio_alert now Speech_pattern]"
    using assms t by (simp add: client_monitor_audio_def Let_def medium_audio_alert_def)
  have compound: "monitor_audio now (Returns (Some f)) st =
      st\<lparr>alerts := alerts st @ [medium_audio_alert now
        (Speech_pattern_detected (get f ''pause_pattern_score'' 0)
           (get f ''fluency_score'' 0))]\<rparr>"
    if "get f ''fluency_score'' 0 > 0.8"
    using assms t that by (simp add: monitor_audio_def Let_def medium_audio_alert_def)
  have analysed: "monitor_audio now (Returns (analyze_realtime_audio collected)) st =
      st\<lparr>alerts := alerts st @ [medium_audio_alert now
        (Speech_pattern_detected (get f ''pause_pattern_score'' 0)
           (get f ''fluency_score'' 0))]\<rparr>"
    if a: "analyze_realtime_audio collected = Some f"
    using compound [OF analysed_pause_needs_fluency [OF a assms]] a by simp
  show ?thesis using client compound analysed by blast
qed

theorem audio_alert_is_medium_witness:
  "get (extract_audio_features pause_then_speech) ''pause_pattern_score'' 0 = 0.8
   \<and> client_monitor_audio 3 (Some (Returns (analyze_realtime_audio (Some pause_then_speech)))) []
       = [medium_audio_alert 3 Speech_pattern]
   \<and> alerts (monitor_audio 3 (Returns (analyze_realtime_audio (Some pause_then_speech)))
        \<lparr>detection_scores = [], alerts = []\<rparr>)
       = [medium_audio_alert 3 (Speech_pattern_detected 0.8 (160 / 193 * 0.97))]"
  using audio_alert_is_medium [of "extract_audio_features pause_then_speech" 3 "[]"
      "Some pause_then_speech" "\<lparr>detection_scores = [], alerts = []\<rparr>"]
  by (simp add: pts_features get_def analyze_realtime_audio_def)

end
